theory Spec2Isabelle
  imports Main
begin

section \<open>Data model\<close>

text \<open>
  \<^verbatim>\<open>types/index.ts\<close>: the \<^verbatim>\<open>User\<close> interface. The field \<^verbatim>\<open>id\<close> is written
  \<open>id'\<close> here; \<^verbatim>\<open>role\<close> is the string the backend sent (the interface narrows it to
  \<^verbatim>\<open>'police' | 'admin'\<close>, nothing checks that at run time); an optional field is an
  \<open>option\<close>.
\<close>

record User =
  id' :: string
  email :: string
  name :: string
  phone :: "string option"
  role :: string
  is_approved :: bool
  created_at :: string

text \<open>
  What \<^verbatim>\<open>fetch\<close> and the axios client send. \<open>url\<close> is the endpoint path, relative to
  \<^verbatim>\<open>API_CONFIG.BASE_URL\<close>, and \<open>http_method\<close> is the \<^verbatim>\<open>method\<close> option. A form body
  is the list of its url-encoded pairs, a JSON body the list of the properties
  \<^verbatim>\<open>JSON.stringify\<close> keeps (an undefined property is dropped).
\<close>

datatype payload = NoBody | FormBody "(string \<times> string) list" | JsonBody "(string \<times> string) list"

record request =
  url :: string
  http_method :: string
  headers :: "string \<rightharpoonup> string"
  body :: payload

text \<open>
  A response as the code reads it: \<open>status\<close>, \<open>detail\<close> for
  \<^verbatim>\<open>JSON.parse(text).detail\<close> (\<open>None\<close> when that throws or is falsy) and \<open>json\<close> for
  \<^verbatim>\<open>await response.json()\<close> (\<open>None\<close> when the body does not decode to an object).
  \<^verbatim>\<open>response.ok\<close> is the 2xx range. Reading the text of a reply is taken to succeed.
\<close>

record 'a response =
  status :: nat
  detail :: "string option"
  json :: "'a option"

definition ok :: "'a response \<Rightarrow> bool" where
  "ok r = (200 \<le> status r \<and> status r \<le> 299)"

record LoginData =
  access_token :: string

datatype error =
    StorageError
  | ReferenceError
  | NetworkError
  | SyntaxError
  | TypeError
  | Error string
  | AxiosError "nat option"

text \<open>The result of \<^verbatim>\<open>JSON.parse\<close> on the stored user text.\<close>

datatype parsed = Throws | Null | Value User

section \<open>The state: AsyncStorage and the AuthProvider's React state\<close>

text \<open>
  Every effect is recorded in \<open>trace\<close>, in the order the code performs it, so that
  ordering properties can be stated. A storage call that throws leaves no event.
\<close>

datatype event =
    GetItem string
  | SetItem string string
  | RemoveItem string
  | LocalRemoveItem string
  | SetUser "User option"
  | SetLoading bool
  | Fetch request

text \<open>
  \<open>storage\<close> is AsyncStorage (the Credential Store), with the keys \<^verbatim>\<open>'user'\<close> and
  \<^verbatim>\<open>'token'\<close>. \<open>faults\<close> schedules the coming AsyncStorage calls: each call takes the
  head, and throws when it is \<open>True\<close>; the empty schedule never throws. \<open>user\<close> and
  \<open>loading\<close> are the two \<^verbatim>\<open>useState\<close> cells of \<^verbatim>\<open>AuthProvider\<close>.
  \<open>window_defined\<close> is \<^verbatim>\<open>typeof window !== 'undefined'\<close>, and \<open>localStorage\<close> is
  \<open>None\<close> where the global does not exist (naming it throws a ReferenceError).
\<close>

record world =
  storage :: "string \<rightharpoonup> string"
  faults :: "bool list"
  user :: "User option"
  loading :: bool
  window_defined :: bool
  localStorage :: "(string \<rightharpoonup> string) option"
  trace :: "event list"

definition emit :: "event \<Rightarrow> world \<Rightarrow> world" where
  "emit e w = w\<lparr>trace := trace w @ [e]\<rparr>"

definition next_fails :: "world \<Rightarrow> bool" where
  "next_fails w = (case faults w of [] \<Rightarrow> False | f # _ \<Rightarrow> f)"

definition tick :: "world \<Rightarrow> world" where
  "tick w = w\<lparr>faults := tl (faults w)\<rparr>"

definition AsyncStorage_getItem :: "string \<Rightarrow> world \<Rightarrow> (error + string option) \<times> world" where
  "AsyncStorage_getItem k w =
     (if next_fails w then (Inl StorageError, tick w)
      else (Inr (storage w k), emit (GetItem k) (tick w)))"

definition AsyncStorage_setItem :: "string \<Rightarrow> string \<Rightarrow> world \<Rightarrow> (error + unit) \<times> world" where
  "AsyncStorage_setItem k v w =
     (if next_fails w then (Inl StorageError, tick w)
      else (Inr (), emit (SetItem k v) ((tick w)\<lparr>storage := (storage w)(k \<mapsto> v)\<rparr>)))"

definition AsyncStorage_removeItem :: "string \<Rightarrow> world \<Rightarrow> (error + unit) \<times> world" where
  "AsyncStorage_removeItem k w =
     (if next_fails w then (Inl StorageError, tick w)
      else (Inr (), emit (RemoveItem k) ((tick w)\<lparr>storage := (storage w)(k := None)\<rparr>)))"

definition localStorage_removeItem :: "string \<Rightarrow> world \<Rightarrow> (error + unit) \<times> world" where
  "localStorage_removeItem k w =
     (case localStorage w of
        None \<Rightarrow> (Inl ReferenceError, w)
      | Some ls \<Rightarrow> (Inr (), emit (LocalRemoveItem k) (w\<lparr>localStorage := Some (ls(k := None))\<rparr>)))"

definition setUser :: "User option \<Rightarrow> world \<Rightarrow> world" where
  "setUser u w = emit (SetUser u) (w\<lparr>user := u\<rparr>)"

definition setLoading :: "bool \<Rightarrow> world \<Rightarrow> world" where
  "setLoading b w = emit (SetLoading b) (w\<lparr>loading := b\<rparr>)"

definition fetch :: "request \<Rightarrow> world \<Rightarrow> world" where
  "fetch req w = emit (Fetch req) w"

text \<open>JavaScript truthiness of \<^verbatim>\<open>string | null\<close>: null and the empty string are falsy.\<close>

definition truthy :: "string option \<Rightarrow> bool" where
  "truthy s = (case s of None \<Rightarrow> False | Some t \<Rightarrow> t \<noteq> [])"

section \<open>AuthContext: loadStoredUser\<close>

text \<open>
  The \<^verbatim>\<open>try\<close> block of \<^verbatim>\<open>loadStoredUser\<close>. Both keys are read; only \<^verbatim>\<open>storedUser\<close>
  decides. \<^verbatim>\<open>JSON.parse\<close> is the platform's, so it is a parameter. When it returns null,
  \<^verbatim>\<open>userData.email\<close> in the log line throws a TypeError.
\<close>

definition loadStoredUser_try :: "(string \<Rightarrow> parsed) \<Rightarrow> world \<Rightarrow> (error + unit) \<times> world" where
  "loadStoredUser_try JSON_parse w =
     (case AsyncStorage_getItem ''user'' w of
        (Inl e, w1) \<Rightarrow> (Inl e, w1)
      | (Inr storedUser, w1) \<Rightarrow>
          (case AsyncStorage_getItem ''token'' w1 of
             (Inl e, w2) \<Rightarrow> (Inl e, w2)
           | (Inr storedToken, w2) \<Rightarrow>
               (if truthy storedUser then
                  (case JSON_parse (the storedUser) of
                     Throws \<Rightarrow> (Inl SyntaxError, w2)
                   | Null \<Rightarrow> (Inl TypeError, w2)
                   | Value userData \<Rightarrow> (Inr (), setUser (Some userData) w2))
                else (Inr (), setUser None w2))))"

text \<open>\<^verbatim>\<open>catch\<close> sets the user to null; \<^verbatim>\<open>finally\<close> ends the loading phase.\<close>

definition loadStoredUser :: "(string \<Rightarrow> parsed) \<Rightarrow> world \<Rightarrow> world" where
  "loadStoredUser JSON_parse w =
     (case loadStoredUser_try JSON_parse w of
        (Inl e, w') \<Rightarrow> setLoading False (setUser None w')
      | (Inr _, w') \<Rightarrow> setLoading False w')"

section \<open>AuthContext: login, register, logout\<close>

datatype auth_endpoint = LOGIN | REGISTER | ME

definition getAuthUrl :: "auth_endpoint \<Rightarrow> string" where
  "getAuthUrl e = (case e of LOGIN \<Rightarrow> ''/auth/login'' | REGISTER \<Rightarrow> ''/auth/register'' | ME \<Rightarrow> ''/auth/me'')"

definition login_request :: "string \<Rightarrow> string \<Rightarrow> request" where
  "login_request email_arg password =
     \<lparr>url = getAuthUrl LOGIN, http_method = ''POST'',
      headers = [''Content-Type'' \<mapsto> ''application/x-www-form-urlencoded''],
      body = FormBody [(''username'', email_arg), (''password'', password)]\<rparr>"

definition me_request :: "LoginData \<Rightarrow> request" where
  "me_request data =
     \<lparr>url = getAuthUrl ME, http_method = ''GET'',
      headers = [''Authorization'' \<mapsto> ''Bearer '' @ access_token data],
      body = NoBody\<rparr>"

text \<open>
  \<^verbatim>\<open>login\<close>. The two arguments \<open>reply\<close> and \<open>userReply\<close> are what the two
  \<^verbatim>\<open>fetch\<close> calls resolve to (\<open>None\<close>: the promise rejects, a transport error); the
  second is consulted only if the second call is made. The \<^verbatim>\<open>catch\<close> block logs and
  rethrows, so the result of the \<^verbatim>\<open>try\<close> block is the result of \<^verbatim>\<open>login\<close>.
\<close>

definition login ::
  "(User \<Rightarrow> string) \<Rightarrow> string \<Rightarrow> string \<Rightarrow> LoginData response option \<Rightarrow> User response option
     \<Rightarrow> world \<Rightarrow> (error + unit) \<times> world" where
  "login JSON_stringify email_arg password reply userReply w =
     (let w1 = fetch (login_request email_arg password) w in
      case reply of
        None \<Rightarrow> (Inl NetworkError, w1)
      | Some response \<Rightarrow>
          if \<not> ok response then
            (Inl (Error (case detail response of Some d \<Rightarrow> d | None \<Rightarrow> ''Login failed'')), w1)
          else
            (case json response of
               None \<Rightarrow> (Inl SyntaxError, w1)
             | Some data \<Rightarrow>
                 (let w2 = fetch (me_request data) w1 in
                  case userReply of
                    None \<Rightarrow> (Inl NetworkError, w2)
                  | Some userResponse \<Rightarrow>
                      if ok userResponse then
                        (case json userResponse of
                           None \<Rightarrow> (Inl SyntaxError, w2)
                         | Some userData \<Rightarrow>
                             (let user_obj =
                                \<lparr>id' = id' userData, email = email userData,
                                 name = name userData, phone = phone userData,
                                 role = role userData, is_approved = is_approved userData,
                                 created_at = created_at userData\<rparr>
                              in
                              case AsyncStorage_setItem ''user'' (JSON_stringify user_obj) w2 of
                                (Inl e, w3) \<Rightarrow> (Inl e, w3)
                              | (Inr _, w3) \<Rightarrow>
                                  (case AsyncStorage_setItem ''token'' (access_token data) w3 of
                                     (Inl e, w4) \<Rightarrow> (Inl e, w4)
                                   | (Inr _, w4) \<Rightarrow> (Inr (), setUser (Some user_obj) w4))))
                      else (Inl (Error ''Failed to get user details''), w2))))"

definition register_request :: "string \<Rightarrow> string \<Rightarrow> string \<Rightarrow> string option \<Rightarrow> request" where
  "register_request email_arg password name_arg phone_arg =
     \<lparr>url = getAuthUrl REGISTER, http_method = ''POST'',
      headers = [''Content-Type'' \<mapsto> ''application/json''],
      body = JsonBody
        ([(''email'', email_arg), (''password'', password), (''name'', name_arg)]
         @ (case phone_arg of None \<Rightarrow> [] | Some p \<Rightarrow> [(''phone'', p)])
         @ [(''role'', ''police'')])\<rparr>"

definition register ::
  "string \<Rightarrow> string \<Rightarrow> string \<Rightarrow> string option \<Rightarrow> unit response option
     \<Rightarrow> world \<Rightarrow> (error + unit) \<times> world" where
  "register email_arg password name_arg phone_arg reply w =
     (let w1 = fetch (register_request email_arg password name_arg phone_arg) w in
      case reply of
        None \<Rightarrow> (Inl NetworkError, w1)
      | Some response \<Rightarrow>
          if \<not> ok response then
            (Inl (Error (case detail response of Some d \<Rightarrow> d | None \<Rightarrow> ''Registration failed'')), w1)
          else (Inr (), w1))"

text \<open>
  \<^verbatim>\<open>logout\<close>: the \<^verbatim>\<open>try\<close> block, then the \<^verbatim>\<open>catch\<close> that clears the user state
  whatever was thrown.
\<close>

definition logout_try :: "world \<Rightarrow> (error + unit) \<times> world" where
  "logout_try w =
     (case AsyncStorage_removeItem ''user'' w of
        (Inl e, w1) \<Rightarrow> (Inl e, w1)
      | (Inr _, w1) \<Rightarrow>
          (case AsyncStorage_removeItem ''token'' w1 of
             (Inl e, w2) \<Rightarrow> (Inl e, w2)
           | (Inr _, w2) \<Rightarrow>
               (let w3 = setUser None w2 in
                if window_defined w3 then
                  (case localStorage_removeItem ''user'' w3 of
                     (Inl e, w4) \<Rightarrow> (Inl e, w4)
                   | (Inr _, w4) \<Rightarrow> localStorage_removeItem ''token'' w4)
                else (Inr (), w3))))"

definition logout :: "world \<Rightarrow> world" where
  "logout w = (case logout_try w of (Inl e, w') \<Rightarrow> setUser None w' | (Inr _, w') \<Rightarrow> w')"

section \<open>APIContext: the axios client and its interceptors\<close>

text \<open>The request interceptor: the token is read from AsyncStorage at every request.\<close>

definition request_interceptor :: "request \<Rightarrow> world \<Rightarrow> (error + request) \<times> world" where
  "request_interceptor config w =
     (case AsyncStorage_getItem ''token'' w of
        (Inl e, w1) \<Rightarrow> (Inl e, w1)
      | (Inr token, w1) \<Rightarrow>
          (if truthy token then
             (Inr (config\<lparr>headers := (headers config)(''Authorization'' \<mapsto> ''Bearer '' @ the token)\<rparr>), w1)
           else (Inr config, w1)))"

text \<open>\<^verbatim>\<open>error.response?.status\<close>: only an axios error that carries a response has one.\<close>

definition response_status :: "error \<Rightarrow> nat option" where
  "response_status err = (case err of AxiosError s \<Rightarrow> s | _ \<Rightarrow> None)"

text \<open>
  The response interceptor's error handler. It always rejects: with \<open>err\<close>, or with what
  a failing \<^verbatim>\<open>removeItem\<close> threw. It has no access to the \<^verbatim>\<open>AuthProvider\<close>'s state.
\<close>

definition response_error_interceptor :: "error \<Rightarrow> world \<Rightarrow> error \<times> world" where
  "response_error_interceptor err w =
     (if response_status err = Some 401 then
        (case AsyncStorage_removeItem ''user'' w of
           (Inl e, w1) \<Rightarrow> (e, w1)
         | (Inr _, w1) \<Rightarrow>
             (case AsyncStorage_removeItem ''token'' w1 of
                (Inl e, w2) \<Rightarrow> (e, w2)
              | (Inr _, w2) \<Rightarrow> (err, w2)))
      else (err, w))"

text \<open>
  axios itself: the request is sent; \<open>reply\<close> is the status that comes back (\<open>None\<close>: no
  response), and the default \<^verbatim>\<open>validateStatus\<close> resolves 2xx and rejects the rest.
\<close>

definition dispatchRequest :: "request \<Rightarrow> nat option \<Rightarrow> world \<Rightarrow> (error + nat) \<times> world" where
  "dispatchRequest config reply w =
     (let w1 = fetch config w in
      case reply of
        None \<Rightarrow> (Inl (AxiosError None), w1)
      | Some s \<Rightarrow> if 200 \<le> s \<and> s \<le> 299 then (Inr s, w1) else (Inl (AxiosError (Some s)), w1))"

text \<open>
  A call through \<^verbatim>\<open>api\<close> (\<^verbatim>\<open>api.get\<close>, \<^verbatim>\<open>api.post\<close>): request interceptor,
  dispatch, and on any rejection the response interceptor's error handler.
\<close>

definition api_call :: "request \<Rightarrow> nat option \<Rightarrow> world \<Rightarrow> (error + nat) \<times> world" where
  "api_call config reply w =
     (case request_interceptor config w of
        (Inl e, w1) \<Rightarrow> (case response_error_interceptor e w1 of (e', w2) \<Rightarrow> (Inl e', w2))
      | (Inr config', w1) \<Rightarrow>
          (case dispatchRequest config' reply w1 of
             (Inl e, w2) \<Rightarrow> (case response_error_interceptor e w2 of (e', w3) \<Rightarrow> (Inl e', w3))
           | (Inr s, w2) \<Rightarrow> (Inr s, w2)))"

section \<open>App and MainNavigator: the role router\<close>

datatype tabs = AdminTabs | PoliceTabs

datatype navigator = MainNavigator tabs | AuthNavigator

datatype rendered = LoadingScreen | NavigationContainer navigator

text \<open>\<^verbatim>\<open>MainTabs\<close>: \<^verbatim>\<open>user?.role === 'admin'\<close> selects the admin tabs, anything else the police tabs.\<close>

definition MainTabs :: "User option \<Rightarrow> tabs" where
  "MainTabs u = (if (case u of None \<Rightarrow> False | Some usr \<Rightarrow> role usr = ''admin'') then AdminTabs else PoliceTabs)"

definition AppContent :: "world \<Rightarrow> rendered" where
  "AppContent w =
     (if loading w then LoadingScreen
      else NavigationContainer (if user w \<noteq> None then MainNavigator (MainTabs (user w)) else AuthNavigator))"

text \<open>The screens registered in each graph, by name.\<close>

definition screens :: "rendered \<Rightarrow> string list" where
  "screens r =
     (case r of
        LoadingScreen \<Rightarrow> []
      | NavigationContainer AuthNavigator \<Rightarrow> [''Login'', ''Register'', ''WaitingApproval'']
      | NavigationContainer (MainNavigator AdminTabs) \<Rightarrow>
          [''AdminDashboard'', ''PendingApprovals'', ''AdminLogs'', ''UserManagement'', ''VerificationResult'']
      | NavigationContainer (MainNavigator PoliceTabs) \<Rightarrow>
          [''PoliceDashboard'', ''Upload'', ''PoliceLogs'', ''VerificationResult''])"

section \<open>The specification's vocabulary, read off the state\<close>

datatype status = Unknown | Anonymous | Authenticated

text \<open>
  \<open>Session.status\<close> as \<^verbatim>\<open>AppContent\<close> reads it: Unknown while \<open>loading\<close>, then
  Authenticated exactly when \<open>user\<close> is set.
\<close>

definition Session_status :: "world \<Rightarrow> status" where
  "Session_status w = (if loading w then Unknown else if user w = None then Anonymous else Authenticated)"

text \<open>The Credential Store is empty when neither key is present.\<close>

definition store_empty :: "world \<Rightarrow> bool" where
  "store_empty w = (storage w ''user'' = None \<and> storage w ''token'' = None)"

text \<open>One of the next \<open>n\<close> AsyncStorage calls is scheduled to throw.\<close>

definition fails_within :: "nat \<Rightarrow> world \<Rightarrow> bool" where
  "fails_within n w = (True \<in> set (take n (faults w)))"



text \<open>
  What the attach stage promises about a dispatched request, in a store state: the
  \<^verbatim>\<open>Authorization\<close> header is the store's token as a bearer credential when there is one,
  and absent otherwise.
\<close>

definition credential_from_store :: "world \<Rightarrow> request \<Rightarrow> bool" where
  "credential_from_store w req =
     (headers req ''Authorization'' =
        (if truthy (storage w ''token'') then Some (''Bearer '' @ the (storage w ''token'')) else None))"

section \<open>Runs of the Session Controller\<close>

datatype op =
    Restore
  | Login string string "LoginData response option" "User response option"
  | Register string string string "string option" "unit response option"
  | Logout








section \<open>Concrete inputs\<close>

text \<open>The officer of the specification's login scenario, and the provider's initial state.\<close>

definition officer :: User where
  "officer = \<lparr>id' = ''1'', email = ''a@x.com'', name = ''A'', phone = None, role = ''police'',
              is_approved = True, created_at = ''2024-01-01''\<rparr>"

definition chief :: User where
  "chief = officer\<lparr>role := ''admin''\<rparr>"

definition boot :: world where
  "boot = \<lparr>storage = Map.empty, faults = [], user = None, loading = True,
           window_defined = False, localStorage = None, trace = []\<rparr>"

text \<open>A stand-in for the JSON codec that knows one text.\<close>

definition officer_text :: string where
  "officer_text = ''{officer}''"

definition toy_stringify :: "User \<Rightarrow> string" where
  "toy_stringify u = officer_text"

definition toy_parse :: "string \<Rightarrow> parsed" where
  "toy_parse s = (if s = officer_text then Value officer else Throws)"

definition token_reply :: "LoginData response option" where
  "token_reply = Some \<lparr>status = 200, detail = None, json = Some \<lparr>access_token = ''T''\<rparr>\<rparr>"

definition profile_reply :: "User response option" where
  "profile_reply = Some \<lparr>status = 200, detail = None, json = Some officer\<rparr>"

text \<open>The state after restore on an empty store, and after the officer logged in.\<close>

definition anonymous_world :: world where
  "anonymous_world = boot\<lparr>loading := False\<rparr>"

definition officer_world :: world where
  "officer_world =
     boot\<lparr>storage := [''user'' \<mapsto> officer_text, ''token'' \<mapsto> ''T''],
          user := Some officer, loading := False\<rparr>"

definition logs_request :: request where
  "logs_request = \<lparr>url = ''/logs/'', http_method = ''GET'', headers = Map.empty, body = NoBody\<rparr>"

section \<open>Basic facts about the primitives\<close>

lemma emit_fields [simp]:
  "storage (emit e w) = storage w" "faults (emit e w) = faults w"
  "user (emit e w) = user w" "loading (emit e w) = loading w"
  "window_defined (emit e w) = window_defined w" "localStorage (emit e w) = localStorage w"
  "trace (emit e w) = trace w @ [e]"
  by (simp_all add: emit_def)

lemma tick_fields [simp]:
  "storage (tick w) = storage w" "faults (tick w) = tl (faults w)"
  "user (tick w) = user w" "loading (tick w) = loading w"
  "window_defined (tick w) = window_defined w" "localStorage (tick w) = localStorage w"
  "trace (tick w) = trace w"
  by (simp_all add: tick_def)

lemma setUser_fields [simp]:
  "storage (setUser u w) = storage w" "faults (setUser u w) = faults w"
  "user (setUser u w) = u" "loading (setUser u w) = loading w"
  "window_defined (setUser u w) = window_defined w" "localStorage (setUser u w) = localStorage w"
  "trace (setUser u w) = trace w @ [SetUser u]"
  by (simp_all add: setUser_def)

lemma setLoading_fields [simp]:
  "storage (setLoading b w) = storage w" "faults (setLoading b w) = faults w"
  "user (setLoading b w) = user w" "loading (setLoading b w) = b"
  "window_defined (setLoading b w) = window_defined w"
  "localStorage (setLoading b w) = localStorage w"
  "trace (setLoading b w) = trace w @ [SetLoading b]"
  by (simp_all add: setLoading_def)

lemma fetch_fields [simp]:
  "storage (fetch r w) = storage w" "faults (fetch r w) = faults w"
  "user (fetch r w) = user w" "loading (fetch r w) = loading w"
  "window_defined (fetch r w) = window_defined w" "localStorage (fetch r w) = localStorage w"
  "trace (fetch r w) = trace w @ [Fetch r]"
  by (simp_all add: fetch_def)

lemmas storage_defs =
  AsyncStorage_getItem_def AsyncStorage_setItem_def AsyncStorage_removeItem_def

lemma getItem_storage: "storage (snd (AsyncStorage_getItem k w)) = storage w"
  by (simp add: AsyncStorage_getItem_def)

lemma loadStoredUser_try_storage: "storage (snd (loadStoredUser_try JSON_parse w)) = storage w"
  by (simp add: loadStoredUser_try_def AsyncStorage_getItem_def split: parsed.splits)

lemma User_rebuild [simp]:
  "\<lparr>id' = id' u, email = email u, name = name u, phone = phone u, role = role u,
    is_approved = is_approved u, created_at = created_at u\<rparr> = u"
  by (cases u) simp

section \<open>Claims\<close>

text \<open>
  C10. \<^verbatim>\<open>loadStoredUser\<close> (restore) never writes to or clears the Credential Store: for
  every store content (complete, partial or malformed), every fault schedule and every
  behaviour of \<^verbatim>\<open>JSON.parse\<close>, the store after restore equals the store before it.
\<close>

theorem restore_leaves_store:
  "storage (loadStoredUser JSON_parse w) = storage w"
proof -
  have "storage (snd (loadStoredUser_try JSON_parse w)) = storage w"
    by (rule loadStoredUser_try_storage)
  then show ?thesis
    by (auto simp: loadStoredUser_def split: prod.splits sum.splits)
qed

text \<open>
  C2, as stated, fails: a store that holds a well-formed \<^verbatim>\<open>'user'\<close> text and no
  \<^verbatim>\<open>'token'\<close> (exactly one of the two keys) is restored as Authenticated, because
  \<^verbatim>\<open>loadStoredUser\<close> tests \<^verbatim>\<open>storedUser\<close> alone.
\<close>

theorem restore_user_only_counterexample:
  "storage (boot\<lparr>storage := [''user'' \<mapsto> officer_text]\<rparr>) ''user'' \<noteq> None \<and>
   storage (boot\<lparr>storage := [''user'' \<mapsto> officer_text]\<rparr>) ''token'' = None \<and>
   Session_status (loadStoredUser toy_parse (boot\<lparr>storage := [''user'' \<mapsto> officer_text]\<rparr>))
     = Authenticated"
  by (simp add: boot_def officer_text_def toy_parse_def loadStoredUser_def loadStoredUser_try_def
      storage_defs next_fails_def truthy_def Session_status_def)

text \<open>
  C2, amended. For every store content in which the \<^verbatim>\<open>'user'\<close> key is absent (no record
  at all, or only the \<^verbatim>\<open>'token'\<close> key), and for every run in which one of the two store
  reads throws, restore ends with no user set and the Session status Anonymous.
\<close>

theorem restore_fallback:
  "storage w ''user'' = None \<or> fails_within 2 w \<Longrightarrow>
   user (loadStoredUser JSON_parse w) = None \<and>
   Session_status (loadStoredUser JSON_parse w) = Anonymous"
  by (cases "faults w"; cases "tl (faults w)")
     (auto simp: loadStoredUser_def loadStoredUser_try_def storage_defs next_fails_def
       truthy_def Session_status_def fails_within_def split: parsed.splits)

theorem restore_fallback_witness:
  "storage (boot\<lparr>storage := [''token'' \<mapsto> ''T'']\<rparr>) ''user'' = None \<and>
   Session_status (loadStoredUser toy_parse (boot\<lparr>storage := [''token'' \<mapsto> ''T'']\<rparr>)) = Anonymous \<and>
   fails_within 2 (officer_world\<lparr>faults := [False, True]\<rparr>) \<and>
   Session_status (loadStoredUser toy_parse (officer_world\<lparr>faults := [False, True]\<rparr>)) = Anonymous"
  using restore_fallback [of "boot\<lparr>storage := [''token'' \<mapsto> ''T'']\<rparr>" toy_parse]
    restore_fallback [of "officer_world\<lparr>faults := [False, True]\<rparr>" toy_parse]
  by (simp add: boot_def officer_world_def fails_within_def)





text \<open>
  C6. \<^verbatim>\<open>logout\<close> always ends with no user set (so, once loading is over, with the Session
  status Anonymous), also when a \<^verbatim>\<open>removeItem\<close> throws. When neither \<^verbatim>\<open>removeItem\<close>
  throws, both keys are gone from the store and the effects start with
  \<^verbatim>\<open>removeItem('user')\<close>, \<^verbatim>\<open>removeItem('token')\<close>, \<^verbatim>\<open>setUser(null)\<close>, in this order;
  what follows is the web cleanup of \<^verbatim>\<open>localStorage\<close> or a repeated \<^verbatim>\<open>setUser(null)\<close>.
\<close>

theorem logout_fail_open:
  "user (logout w) = None \<and> loading (logout w) = loading w \<and>
   (\<not> loading w \<longrightarrow> Session_status (logout w) = Anonymous) \<and>
   (\<not> fails_within 2 w \<longrightarrow>
      store_empty (logout w) \<and>
      (\<exists>rest. trace (logout w) =
                trace w @ [RemoveItem ''user'', RemoveItem ''token'', SetUser None] @ rest \<and>
              set rest \<subseteq> {LocalRemoveItem ''user'', LocalRemoveItem ''token'', SetUser None}))"
  by (cases "faults w"; cases "tl (faults w)")
     (auto simp: logout_def logout_try_def Let_def storage_defs next_fails_def
       localStorage_removeItem_def Session_status_def fails_within_def store_empty_def
       split: option.splits)

theorem logout_fail_open_witness:
  "\<not> loading officer_world \<and> \<not> fails_within 2 officer_world \<and>
   Session_status (logout officer_world) = Anonymous \<and> store_empty (logout officer_world) \<and>
   \<not> loading (officer_world\<lparr>faults := [True]\<rparr>) \<and>
   Session_status (logout (officer_world\<lparr>faults := [True]\<rparr>)) = Anonymous"
  using logout_fail_open [of officer_world] logout_fail_open [of "officer_world\<lparr>faults := [True]\<rparr>"]
  by (simp add: officer_world_def boot_def fails_within_def)

text \<open>
  C7. \<^verbatim>\<open>register\<close> sends exactly one request, whose JSON body carries the property
  \<^verbatim>\<open>role\<close> with the fixed value \<^verbatim>\<open>'police'\<close>; whatever the reply (2xx, an error
  status, or no reply at all), the user state, the loading flag, the store and hence the
  Session status are unchanged.
\<close>

theorem register_frame:
  "(case register e p n ph reply w of
      (r, w') \<Rightarrow> user w' = user w \<and> loading w' = loading w \<and> storage w' = storage w \<and>
                 Session_status w' = Session_status w \<and>
                 trace w' = trace w @ [Fetch (register_request e p n ph)]) \<and>
   (\<exists>fields. body (register_request e p n ph) = JsonBody fields \<and>
             map_of fields ''role'' = Some ''police'')"
  by (auto simp: register_def register_request_def Let_def Session_status_def
      split: option.splits)

text \<open>
  C8. The role router (\<^verbatim>\<open>AppContent\<close> with \<^verbatim>\<open>MainTabs\<close>) is total on status and role:
  Unknown gives the loading screen, which registers no screen; Anonymous gives the
  \<^verbatim>\<open>AuthNavigator\<close> graph; Authenticated with role \<^verbatim>\<open>'police'\<close> gives the police tabs and
  with role \<^verbatim>\<open>'admin'\<close> the admin tabs; every state gives one of these four; and
  changing \<^verbatim>\<open>is_approved\<close> never changes the result.
\<close>

theorem role_router_total:
  "(Session_status w = Unknown \<longrightarrow>
      AppContent w = LoadingScreen \<and> screens (AppContent w) = []) \<and>
   (Session_status w = Anonymous \<longrightarrow> AppContent w = NavigationContainer AuthNavigator) \<and>
   (Session_status w = Authenticated \<and> user w = Some u \<and> role u = ''police'' \<longrightarrow>
      AppContent w = NavigationContainer (MainNavigator PoliceTabs)) \<and>
   (Session_status w = Authenticated \<and> user w = Some u \<and> role u = ''admin'' \<longrightarrow>
      AppContent w = NavigationContainer (MainNavigator AdminTabs)) \<and>
   AppContent w \<in> {LoadingScreen, NavigationContainer AuthNavigator,
                   NavigationContainer (MainNavigator PoliceTabs),
                   NavigationContainer (MainNavigator AdminTabs)} \<and>
   AppContent (w\<lparr>user := Some (u\<lparr>is_approved := b\<rparr>)\<rparr>) = AppContent (w\<lparr>user := Some u\<rparr>)"
  by (auto simp: Session_status_def AppContent_def MainTabs_def screens_def
      split: if_splits option.splits)

theorem role_router_total_witness:
  "Session_status boot = Unknown \<and> AppContent boot = LoadingScreen \<and>
   Session_status anonymous_world = Anonymous \<and>
   AppContent anonymous_world = NavigationContainer AuthNavigator \<and>
   Session_status officer_world = Authenticated \<and>
   AppContent officer_world = NavigationContainer (MainNavigator PoliceTabs) \<and>
   Session_status (officer_world\<lparr>user := Some chief\<rparr>) = Authenticated \<and>
   AppContent (officer_world\<lparr>user := Some chief\<rparr>) = NavigationContainer (MainNavigator AdminTabs)"
  using role_router_total [of boot officer False] role_router_total [of anonymous_world officer False]
    role_router_total [of officer_world officer False]
    role_router_total [of "officer_world\<lparr>user := Some chief\<rparr>" chief False]
  by (simp add: Session_status_def boot_def anonymous_world_def officer_world_def officer_def
      chief_def)

text \<open>
  No call through the axios client touches the \<^verbatim>\<open>AuthProvider\<close>'s state: the interceptors
  only read and clear AsyncStorage.
\<close>

lemma api_call_keeps_user:
  "user (snd (api_call config reply w)) = user w \<and>
   loading (snd (api_call config reply w)) = loading w"
  by (auto simp: api_call_def request_interceptor_def response_error_interceptor_def
      dispatchRequest_def Let_def storage_defs split: option.splits prod.splits sum.splits if_splits)

text \<open>
  C1, at the failing input. The officer is logged in (both keys stored, the user set) and
  a call to \<^verbatim>\<open>/logs/\<close> through the client is answered 401. The rejection that reaches the
  caller is the 401 error and the store is empty, but the user is still set: the Session
  status is Authenticated, not Anonymous.
\<close>

theorem unauthorized_keeps_session:
  "(case api_call logs_request (Some 401) officer_world of
      (r, w') \<Rightarrow> r = Inl (AxiosError (Some 401)) \<and> store_empty w' \<and>
                 user w' = Some officer \<and> Session_status w' = Authenticated)"
  by (simp add: api_call_def request_interceptor_def response_error_interceptor_def
      dispatchRequest_def Let_def storage_defs next_fails_def truthy_def response_status_def
      officer_world_def boot_def store_empty_def Session_status_def)

text \<open>
  C9, as stated, fails: \<^verbatim>\<open>login\<close> calls \<^verbatim>\<open>fetch\<close> directly. With an empty store, its
  request to \<^verbatim>\<open>/auth/me\<close> is dispatched with an \<^verbatim>\<open>Authorization\<close> header, built from the
  login reply and not from the store.
\<close>

theorem profile_call_bypasses_store_counterexample:
  "storage anonymous_world ''token'' = None \<and>
   Fetch (me_request \<lparr>access_token = ''T''\<rparr>)
     \<in> set (trace (snd (login toy_stringify ''a@x.com'' ''secret'' token_reply profile_reply
                        anonymous_world))) \<and>
   \<not> credential_from_store anonymous_world (me_request \<lparr>access_token = ''T''\<rparr>)"
  by (simp add: login_def Let_def token_reply_def profile_reply_def ok_def storage_defs
      next_fails_def anonymous_world_def boot_def credential_from_store_def me_request_def
      truthy_def)

text \<open>
  C9, amended. Every call through the axios client passes the attach stage: the token is
  read from AsyncStorage first (the in-memory user plays no part), and the request is then
  dispatched with \<^verbatim>\<open>Authorization: Bearer <token>\<close> when the store holds a non-empty
  token, and as the caller built it otherwise; when the read throws, nothing is dispatched.
  What may follow the dispatch is only the clearing of the two keys. The Session
  Controller's own calls bypass the client: \<^verbatim>\<open>login\<close> first sends its login request, the
  login and register requests carry no \<^verbatim>\<open>Authorization\<close> header, and the \<^verbatim>\<open>/auth/me\<close>
  request carries the token of the login reply.
\<close>

theorem attach_stage:
  "(\<not> next_fails w \<longrightarrow>
      (\<exists>rest. trace (snd (api_call config reply w)) =
                trace w @ [GetItem ''token'',
                           Fetch (if truthy (storage w ''token'')
                                  then config\<lparr>headers := (headers config)(''Authorization'' \<mapsto>
                                         ''Bearer '' @ the (storage w ''token''))\<rparr>
                                  else config)] @ rest \<and>
              set rest \<subseteq> {RemoveItem ''user'', RemoveItem ''token''})) \<and>
   (next_fails w \<longrightarrow> trace (snd (api_call config reply w)) = trace w) \<and>
   (\<exists>rest. trace (snd (login JSON_stringify e p loginReply userReply w)) =
             trace w @ Fetch (login_request e p) # rest) \<and>
   headers (login_request e p) ''Authorization'' = None \<and>
   headers (me_request data) ''Authorization'' = Some (''Bearer '' @ access_token data) \<and>
   headers (register_request e p n ph) ''Authorization'' = None"
  by (auto simp: api_call_def request_interceptor_def response_error_interceptor_def
      dispatchRequest_def Let_def storage_defs login_def login_request_def me_request_def
      register_request_def response_status_def
      split: option.splits prod.splits sum.splits if_splits)

theorem attach_stage_witness:
  "\<not> next_fails officer_world \<and>
   trace (snd (api_call logs_request (Some 200) officer_world)) =
     [GetItem ''token'',
      Fetch (logs_request\<lparr>headers := [''Authorization'' \<mapsto> ''Bearer T'']\<rparr>)] \<and>
   \<not> next_fails anonymous_world \<and>
   trace (snd (api_call logs_request (Some 200) anonymous_world)) =
     [GetItem ''token'', Fetch logs_request] \<and>
   next_fails (officer_world\<lparr>faults := [True]\<rparr>) \<and>
   trace (snd (api_call logs_request (Some 200) (officer_world\<lparr>faults := [True]\<rparr>))) = []"
  using attach_stage [where w = officer_world and config = logs_request and reply = "Some 200"]
    attach_stage [where w = anonymous_world and config = logs_request and reply = "Some 200"]
    attach_stage [where w = "officer_world\<lparr>faults := [True]\<rparr>" and config = logs_request
      and reply = "Some 200"]
  by (simp add: api_call_def request_interceptor_def dispatchRequest_def Let_def storage_defs
      next_fails_def truthy_def officer_world_def anonymous_world_def boot_def logs_request_def)











end
